theory Spec2Isabelle
  imports Main "HOL-Library.Word" "HOL-Library.AList"
begin

unbundle bit_operations_syntax

section \<open>Binary array decoder (decodeBlob.ts)\<close>

text \<open>
  A \<^verbatim>\<open>Uint8Array\<close> is a list of bytes. A JavaScript double is kept as its IEEE-754 bit
  pattern, a 64-bit word: the decoder never computes with the doubles, it only moves them.
  (For a NaN the pattern kept is the one read from the blob; which pattern a JavaScript
  engine stores for a NaN is left open by the language.)
  Indices are JavaScript numbers holding integers; they are modelled as \<open>int\<close>, so that
  \<^verbatim>\<open>blob.byteLength - ENTRY_MARKER.length\<close> may be negative and \<^verbatim>\<open>-1\<close> is a result.
  The errors of the whole program are collected in one type.
\<close>

type_synonym byte = "8 word"
type_synonym float64 = "64 word"

datatype js_error =
    RangeError
  | UnknownParameterType int int
  | NoRootTreeNode int

definition ENTRY_MARKER :: "byte list" where
  "ENTRY_MARKER = [0x06, 0x01, 0x01, 0x01, 0x02, 0x01]"

definition ENTRY_SIZE :: int where
  "ENTRY_SIZE = 14"

text \<open>Indexing a typed array: \<^verbatim>\<open>arr[i]\<close> is \<^verbatim>\<open>undefined\<close> (here \<open>None\<close>) out of range.\<close>

definition u8_at :: "byte list \<Rightarrow> int \<Rightarrow> byte option" where
  "u8_at arr i = (if 0 \<le> i \<and> i < int (length arr) then Some (arr ! nat i) else None)"

text \<open>The inner loop of \<^verbatim>\<open>findMarker\<close>, from index \<open>j\<close> on: the value of \<^verbatim>\<open>match\<close> at its end.\<close>

function marker_match :: "byte list \<Rightarrow> int \<Rightarrow> int \<Rightarrow> bool" where
  "marker_match blob i j =
     (if j < int (length ENTRY_MARKER)
      then (if u8_at blob (i + j) \<noteq> u8_at ENTRY_MARKER j then False
            else marker_match blob i (j + 1))
      else True)"
  by pat_completeness auto
termination
  by (relation "measure (\<lambda>(blob, i, j). nat (int (length ENTRY_MARKER) - j))") auto

text \<open>The outer loop of \<^verbatim>\<open>findMarker\<close>, from index \<open>i\<close> on.\<close>

function findMarker_from :: "byte list \<Rightarrow> int \<Rightarrow> int" where
  "findMarker_from blob i =
     (if i \<le> int (length blob) - int (length ENTRY_MARKER)
      then (if marker_match blob i 0 then i else findMarker_from blob (i + 1))
      else - 1)"
  by pat_completeness auto
termination
  by (relation "measure (\<lambda>(blob, i). nat (int (length blob) - int (length ENTRY_MARKER) + 1 - i))")
     auto

definition findMarker :: "byte list \<Rightarrow> int" where
  "findMarker blob = findMarker_from blob 0"

text \<open>
  Little-endian composition of bytes into a word: the first byte is the least significant.
\<close>

fun le_word :: "byte list \<Rightarrow> float64" where
  "le_word [] = 0"
| "le_word (b # bs) = ucast b OR push_bit 8 (le_word bs)"

text \<open>
  \<^verbatim>\<open>DataView.getFloat64(byteOffset, true)\<close> on a view of the whole blob: a \<^verbatim>\<open>RangeError\<close>
  when the eight bytes do not lie inside the view.
\<close>

definition getFloat64 :: "byte list \<Rightarrow> int \<Rightarrow> js_error + float64" where
  "getFloat64 view byteOffset =
     (if byteOffset < 0 \<or> byteOffset + 8 > int (length view) then Inl RangeError
      else Inr (le_word (take 8 (drop (nat byteOffset) view))))"

text \<open>The \<^verbatim>\<open>for\<close> loop of \<^verbatim>\<open>decodeBlob\<close>, from index \<open>i\<close> on, writing into \<open>result\<close>.\<close>

function decodeBlob_from ::
  "byte list \<Rightarrow> int \<Rightarrow> int \<Rightarrow> int \<Rightarrow> float64 list \<Rightarrow> js_error + float64 list" where
  "decodeBlob_from view markerOffset count i result =
     (if i < count
      then (case getFloat64 view (markerOffset + i * ENTRY_SIZE + 6) of
              Inl e \<Rightarrow> Inl e
            | Inr v \<Rightarrow> decodeBlob_from view markerOffset count (i + 1) (result[nat i := v]))
      else Inr result)"
  by pat_completeness auto
termination
  by (relation "measure (\<lambda>(view, markerOffset, count, i, result). nat (count - i))") auto

definition decodeBlob :: "byte list \<Rightarrow> js_error + float64 list" where
  "decodeBlob blob =
     (let markerOffset = findMarker blob in
      if markerOffset = - 1 then Inr []
      else
        let remainingBytes = int (length blob) - markerOffset;
            count = remainingBytes div ENTRY_SIZE;
            result = replicate (nat count) 0
        in decodeBlob_from blob markerOffset count 0 result)"

text \<open>
  What the claims call "the marker occurs at offset \<open>k\<close>": the six bytes from \<open>k\<close> on are
  the marker.
\<close>

definition marker_at :: "byte list \<Rightarrow> nat \<Rightarrow> bool" where
  "marker_at blob k \<longleftrightarrow> take 6 (drop k blob) = ENTRY_MARKER"

text \<open>
  What the claims call the elements read at the stride: for a marker offset \<open>m\<close>, the
  little-endian words at \<open>m + i * 14 + 6\<close> for \<open>i\<close> below \<open>floor ((length - m) / 14)\<close>.
\<close>

definition stride_reads :: "byte list \<Rightarrow> nat \<Rightarrow> float64 list" where
  "stride_reads blob m =
     map (\<lambda>i. le_word (take 8 (drop (m + i * 14 + 6) blob))) [0..<(length blob - m) div 14]"


text \<open>Concrete blobs: two bytes of padding, one entry holding 42.5, three trailing bytes.\<close>

definition blob1 :: "byte list" where
  "blob1 = [0xAA, 0xBB, 0x06, 0x01, 0x01, 0x01, 0x02, 0x01,
            0x00, 0x00, 0x00, 0x00, 0x00, 0x40, 0x45, 0x40, 0x07, 0x07, 0x07]"

section \<open>Output parameters (types.ts) and tree search (findParameter.ts)\<close>

text \<open>
  A JavaScript number is kept as its IEEE-754 bit pattern, like the elements of a
  \<^verbatim>\<open>Float64Array\<close>. A JavaScript string is a \<open>string\<close>, one character per code unit.
  Selectors carry a short prefix of their structure where a field name such as \<^verbatim>\<open>id\<close>
  or \<^verbatim>\<open>children\<close> occurs in several interfaces or is a common variable name.
\<close>

type_synonym js_number = float64

datatype ZmesValue =
    VBoolean bool
  | VNumber js_number
  | VString string
  | VFloat64Array "float64 list"

datatype ZmesParameter =
  ZmesParameter (p_name: string) (p_urn: string) (p_value: "ZmesValue option")
                (p_children: "ZmesParameter list option")

text \<open>\<^verbatim>\<open>children.find((child) => child.name === name)\<close>.\<close>

fun findParameter :: "ZmesParameter list \<Rightarrow> string \<Rightarrow> ZmesParameter option" where
  "findParameter [] name = None"
| "findParameter (child # rest) name =
     (if p_name child = name then Some child else findParameter rest name)"

text \<open>
  \<^verbatim>\<open>findParameterDeep\<close>, with its \<^verbatim>\<open>for (const child of parameter.children)\<close> loop as
  the second function.
\<close>

fun findParameterDeep :: "ZmesParameter \<Rightarrow> string \<Rightarrow> ZmesParameter option"
  and findParameterDeep_children :: "ZmesParameter list \<Rightarrow> string \<Rightarrow> ZmesParameter option" where
  "findParameterDeep (ZmesParameter n u v cs) name =
     (if n = name then Some (ZmesParameter n u v cs)
      else (case cs of
              Some children \<Rightarrow> findParameterDeep_children children name
            | None \<Rightarrow> None))"
| "findParameterDeep_children [] name = None"
| "findParameterDeep_children (child # rest) name =
     (case findParameterDeep child name of
        Some found \<Rightarrow> Some found
      | None \<Rightarrow> findParameterDeep_children rest name)"

text \<open>
  The pre-order traversal the specification speaks of: the node itself, then each child
  subtree in order.
\<close>

fun preorder :: "ZmesParameter \<Rightarrow> ZmesParameter list"
  and preorder_children :: "ZmesParameter list \<Rightarrow> ZmesParameter list" where
  "preorder (ZmesParameter n u v cs) =
     ZmesParameter n u v cs # (case cs of Some children \<Rightarrow> preorder_children children | None \<Rightarrow> [])"
| "preorder_children [] = []"
| "preorder_children (child # rest) = preorder child @ preorder_children rest"

section \<open>Value extraction (readParameterData.ts)\<close>

text \<open>
  The data type values of \<^verbatim>\<open>RecordParameterTypes.ParameterDataType\<close>, which select the
  column of \<^verbatim>\<open>RecordParameterData\<close> that holds the value.
\<close>

definition DATA_TYPE_NONE :: int where "DATA_TYPE_NONE = 0"
definition DATA_TYPE_INT32_SINGLE :: int where "DATA_TYPE_INT32_SINGLE = 1"
definition DATA_TYPE_INT32 :: int where "DATA_TYPE_INT32 = 2"
definition DATA_TYPE_DOUBLE :: int where "DATA_TYPE_DOUBLE = 4"
definition DATA_TYPE_SINGLE :: int where "DATA_TYPE_SINGLE = 5"
definition DATA_TYPE_BOOLEAN :: int where "DATA_TYPE_BOOLEAN = 6"
definition DATA_TYPE_INT64_SINGLE :: int where "DATA_TYPE_INT64_SINGLE = 7"
definition DATA_TYPE_INT64 :: int where "DATA_TYPE_INT64 = 9"
definition DATA_TYPE_GUID :: int where "DATA_TYPE_GUID = 16"
definition DATA_TYPE_TEXT :: int where "DATA_TYPE_TEXT = 17"
definition DATA_TYPE_DICTIONARY_KEYS :: int where "DATA_TYPE_DICTIONARY_KEYS = 32"
definition DATA_TYPE_DICTIONARY :: int where "DATA_TYPE_DICTIONARY = 36"
definition DATA_TYPE_GUID_LIST :: int where "DATA_TYPE_GUID_LIST = 42"
definition DATA_TYPE_DATE_TIME :: int where "DATA_TYPE_DATE_TIME = 48"
definition DATA_TYPE_DURATION :: int where "DATA_TYPE_DURATION = 50"
definition DATA_TYPE_BLOB_ARRAY :: int where "DATA_TYPE_BLOB_ARRAY = 70"

lemmas DATA_TYPE_defs =
  DATA_TYPE_NONE_def DATA_TYPE_INT32_SINGLE_def DATA_TYPE_INT32_def DATA_TYPE_DOUBLE_def
  DATA_TYPE_SINGLE_def DATA_TYPE_BOOLEAN_def DATA_TYPE_INT64_SINGLE_def DATA_TYPE_INT64_def
  DATA_TYPE_GUID_def DATA_TYPE_TEXT_def DATA_TYPE_DICTIONARY_KEYS_def DATA_TYPE_DICTIONARY_def
  DATA_TYPE_GUID_LIST_def DATA_TYPE_DATE_TIME_def DATA_TYPE_DURATION_def DATA_TYPE_BLOB_ARRAY_def

text \<open>A row of \<^verbatim>\<open>RecordParameterData\<close>; \<open>None\<close> is SQL \<^verbatim>\<open>NULL\<close>.\<close>

record RawDataRow =
  parameterTreeNodeId :: int
  d_parameterTypeId :: int
  dataBlob :: "byte list option"
  dataBoolean :: "js_number option"
  dataDouble :: "js_number option"
  dataInt32 :: "js_number option"
  dataInt64 :: "js_number option"
  dataSingle :: "js_number option"
  dataText :: "string option"

text \<open>A parameter type of \<^verbatim>\<open>RecordParameterTypes\<close> (readParameterTree.ts).\<close>

record ParameterType =
  pt_id :: int
  pt_guid :: string
  pt_urn :: "string option"
  pt_friendlyName :: "string option"
  pt_dataType :: int
  pt_description :: "string option"
  pt_dataUnitsUrn :: "string option"

text \<open>
  A tree node as the consumers of \<^verbatim>\<open>buildParameterTree\<close> read it: the object with the
  objects of its \<^verbatim>\<open>children\<close> array inside.
\<close>

datatype TreeNode =
  TreeNode (n_id: int) (n_parameterTypeId: int) (n_parentNodeId: "int option")
           (n_siblingIndex: int) (n_parameterType: ParameterType) (n_children: "TreeNode list")

text \<open>The operator \<^verbatim>\<open>a ?? b\<close> on nullable values, and \<^verbatim>\<open>a ?? ''\<close> on nullable strings.\<close>

definition nullish :: "'a option \<Rightarrow> 'a option \<Rightarrow> 'a option" where
  "nullish a b = (case a of Some x \<Rightarrow> Some x | None \<Rightarrow> b)"

definition nullish_default :: "'a option \<Rightarrow> 'a \<Rightarrow> 'a" where
  "nullish_default a b = (case a of Some x \<Rightarrow> x | None \<Rightarrow> b)"

text \<open>\<^verbatim>\<open>x !== 0\<close> on a number: false on \<open>+0\<close> and on \<open>-0\<close> only.\<close>

definition number_nonzero :: "js_number \<Rightarrow> bool" where
  "number_nonzero x \<longleftrightarrow> x \<noteq> 0 \<and> x \<noteq> 0x8000000000000000"

text \<open>
  \<^verbatim>\<open>extractValue\<close>: the \<^verbatim>\<open>switch\<close> as a chain of tests in the source's order; \<open>Inr None\<close>
  is \<^verbatim>\<open>undefined\<close>.
\<close>

definition extractValue :: "int \<Rightarrow> RawDataRow \<Rightarrow> js_error + ZmesValue option" where
  "extractValue dataType row =
     (if dataType = DATA_TYPE_NONE \<or> dataType = DATA_TYPE_DICTIONARY then Inr None
      else if dataType = DATA_TYPE_INT32_SINGLE \<or> dataType = DATA_TYPE_INT32
        then Inr (map_option VNumber (dataInt32 row))
      else if dataType = DATA_TYPE_DOUBLE \<or> dataType = DATA_TYPE_SINGLE \<or>
              dataType = DATA_TYPE_DURATION
        then Inr (map_option VNumber (nullish (dataDouble row) (dataSingle row)))
      else if dataType = DATA_TYPE_BOOLEAN
        then Inr (case dataBoolean row of
                    Some b \<Rightarrow> Some (VBoolean (number_nonzero b))
                  | None \<Rightarrow> None)
      else if dataType = DATA_TYPE_INT64_SINGLE
        then Inr (map_option VNumber (nullish (dataInt64 row) (dataInt32 row)))
      else if dataType = DATA_TYPE_INT64
        then Inr (map_option VNumber (dataInt64 row))
      else if dataType = DATA_TYPE_GUID \<or> dataType = DATA_TYPE_TEXT \<or>
              dataType = DATA_TYPE_DICTIONARY_KEYS \<or> dataType = DATA_TYPE_GUID_LIST \<or>
              dataType = DATA_TYPE_DATE_TIME
        then Inr (map_option VString (dataText row))
      else if dataType = DATA_TYPE_BLOB_ARRAY
        then (case dataBlob row of
                Some blob \<Rightarrow>
                  (case decodeBlob blob of
                     Inl e \<Rightarrow> Inl e
                   | Inr arr \<Rightarrow> Inr (Some (VFloat64Array arr)))
              | None \<Rightarrow> Inr None)
      else Inr None)"

text \<open>
  \<^verbatim>\<open>convertNode\<close>, with its loop over \<^verbatim>\<open>node.children\<close> as the second function, whose
  last argument is the array \<^verbatim>\<open>parameter.children\<close> built so far. The data map is a
  \<^verbatim>\<open>Map<number, RawDataRow>\<close>, only read here.
\<close>

fun convertNode :: "TreeNode \<Rightarrow> (int \<rightharpoonup> RawDataRow) \<Rightarrow> js_error + ZmesParameter"
  and convertNode_children ::
    "TreeNode list \<Rightarrow> (int \<rightharpoonup> RawDataRow) \<Rightarrow> ZmesParameter list \<Rightarrow> js_error + ZmesParameter list"
  where
  "convertNode (TreeNode i tid par sib ptype children) dataMap =
     (let name = nullish_default (pt_friendlyName ptype) '''';
          urn = nullish_default (pt_urn ptype) '''' in
      case (case dataMap i of
              Some dataRow \<Rightarrow> extractValue (pt_dataType ptype) dataRow
            | None \<Rightarrow> Inr None) of
        Inl e \<Rightarrow> Inl e
      | Inr v \<Rightarrow>
          (if length children > 0
           then (case convertNode_children children dataMap [] of
                   Inl e \<Rightarrow> Inl e
                 | Inr cs \<Rightarrow> Inr (ZmesParameter name urn v (Some cs)))
           else Inr (ZmesParameter name urn v None)))"
| "convertNode_children [] dataMap acc = Inr acc"
| "convertNode_children (child # rest) dataMap acc =
     (case convertNode child dataMap of
        Inl e \<Rightarrow> Inl e
      | Inr p \<Rightarrow> convertNode_children rest dataMap (acc @ [p]))"

text \<open>The value that \<^verbatim>\<open>convertNode\<close> looks up for a node, before the children are converted.\<close>

definition node_value :: "TreeNode \<Rightarrow> (int \<rightharpoonup> RawDataRow) \<Rightarrow> js_error + ZmesValue option" where
  "node_value node dataMap =
     (case dataMap (n_id node) of
        Some dataRow \<Rightarrow> extractValue (pt_dataType (n_parameterType node)) dataRow
      | None \<Rightarrow> Inr None)"

text \<open>The codes that the \<^verbatim>\<open>switch\<close> of \<^verbatim>\<open>extractValue\<close> names; every other code is unrecognized.\<close>

definition known_data_types :: "int set" where
  "known_data_types =
     {DATA_TYPE_NONE, DATA_TYPE_INT32_SINGLE, DATA_TYPE_INT32, DATA_TYPE_DOUBLE, DATA_TYPE_SINGLE,
      DATA_TYPE_BOOLEAN, DATA_TYPE_INT64_SINGLE, DATA_TYPE_INT64, DATA_TYPE_GUID, DATA_TYPE_TEXT,
      DATA_TYPE_DICTIONARY_KEYS, DATA_TYPE_DICTIONARY, DATA_TYPE_GUID_LIST, DATA_TYPE_DATE_TIME,
      DATA_TYPE_DURATION, DATA_TYPE_BLOB_ARRAY}"

section \<open>Records and files (types.ts)\<close>

record ZmesGroup =
  g_id :: int
  g_guid :: string
  g_name :: "string option"

record ZmesRecord =
  r_id :: int
  r_guid :: string
  r_group :: ZmesGroup
  r_createdDateTime :: string
  r_modifiedDateTime :: string
  r_parameters :: ZmesParameter

record ZmesFile =
  f_schemaVersion :: int
  f_metadata :: "(string \<times> string) list"
  f_records :: "ZmesRecord list"

section \<open>Domain projection (toMeasurementXY.ts)\<close>

record VariableDescriptor =
  vd_parameterName :: string
  vd_symbol :: string
  vd_label :: string
  vd_units :: string
  vd_isDependent :: bool

definition VARIABLE_DESCRIPTORS :: "VariableDescriptor list" where
  "VARIABLE_DESCRIPTORS =
     [\<lparr>vd_parameterName = ''Sizes'', vd_symbol = ''x'', vd_label = ''Particle diameter'',
       vd_units = ''nm'', vd_isDependent = False\<rparr>,
      \<lparr>vd_parameterName = ''Particle Size Intensity Distribution'', vd_symbol = ''y'',
       vd_label = ''Intensity'', vd_units = ''%'', vd_isDependent = True\<rparr>,
      \<lparr>vd_parameterName = ''Particle Size Volume Distribution (%)'', vd_symbol = ''a'',
       vd_label = ''Volume'', vd_units = ''%'', vd_isDependent = True\<rparr>,
      \<lparr>vd_parameterName = ''Particle Size Number Distribution'', vd_symbol = ''b'',
       vd_label = ''Number'', vd_units = ''%'', vd_isDependent = True\<rparr>,
      \<lparr>vd_parameterName = ''Molecular Weights'', vd_symbol = ''c'',
       vd_label = ''Molecular weight'', vd_units = ''Da'', vd_isDependent = True\<rparr>,
      \<lparr>vd_parameterName = ''Diffusion Coefficients'', vd_symbol = ''d'',
       vd_label = ''Diffusion coefficient'',
       vd_units = [CHR 0xB5] @ ''m'' @ [CHR 0xB2] @ ''/s'', vd_isDependent = True\<rparr>,
      \<lparr>vd_parameterName = ''Relaxation Times'', vd_symbol = ''e'',
       vd_label = ''Relaxation time'', vd_units = [CHR 0xB5] @ ''s'', vd_isDependent = True\<rparr>,
      \<lparr>vd_parameterName = ''Form Factor'', vd_symbol = ''f'', vd_label = ''Form factor'',
       vd_units = '''', vd_isDependent = True\<rparr>]"

record MeasurementVariable =
  mv_symbol :: string
  mv_label :: string
  mv_units :: string
  mv_data :: "float64 list"
  mv_isDependent :: bool

record Software =
  sw_name :: string
  sw_version :: "string option"

record Instrument =
  manufacturer :: string
  model :: string
  serialNumber :: "string option"
  software :: Software

text \<open>
  The settings object: the \<^verbatim>\<open>instrument\<close> entry and the numeric entries added after it.
  Objects used as dictionaries are association lists in insertion order; assigning a
  property is \<open>AList.update\<close>, as is \<^verbatim>\<open>Map.set\<close>.
\<close>

record Settings =
  instrument :: Instrument
  numeric :: "(string \<times> js_number) list"

record MeasurementXY =
  m_id :: string
  m_title :: string
  m_dataType :: string
  m_meta :: "(string \<times> ZmesValue) list"
  m_settings :: Settings
  m_variables :: "(string \<times> MeasurementVariable) list"

text \<open>
  The value of \<^verbatim>\<open>parameter?.value\<close> for the result of a search, and the three type tests
  made on it: \<^verbatim>\<open>instanceof Float64Array\<close>, \<^verbatim>\<open>typeof ... === 'string'\<close> and
  \<^verbatim>\<open>typeof ... === 'number'\<close>.
\<close>

definition optional_value :: "ZmesParameter option \<Rightarrow> ZmesValue option" where
  "optional_value parameter = (case parameter of Some p \<Rightarrow> p_value p | None \<Rightarrow> None)"

definition as_Float64Array :: "ZmesValue option \<Rightarrow> float64 list option" where
  "as_Float64Array v = (case v of Some (VFloat64Array arr) \<Rightarrow> Some arr | _ \<Rightarrow> None)"

definition as_string :: "ZmesValue option \<Rightarrow> string option" where
  "as_string v = (case v of Some (VString s) \<Rightarrow> Some s | _ \<Rightarrow> None)"

definition as_number :: "ZmesValue option \<Rightarrow> js_number option" where
  "as_number v = (case v of Some (VNumber x) \<Rightarrow> Some x | _ \<Rightarrow> None)"

text \<open>The first loop of \<^verbatim>\<open>buildVariables\<close>, over the descriptors, filling the map \<^verbatim>\<open>found\<close>.\<close>

fun buildVariables_found ::
  "ZmesParameter \<Rightarrow> VariableDescriptor list \<Rightarrow> (string \<times> MeasurementVariable) list \<Rightarrow>
   (string \<times> MeasurementVariable) list" where
  "buildVariables_found parameters [] found = found"
| "buildVariables_found parameters (descriptor # rest) found =
     (case as_Float64Array
             (optional_value (findParameterDeep parameters (vd_parameterName descriptor))) of
        None \<Rightarrow> buildVariables_found parameters rest found
      | Some arr \<Rightarrow>
          buildVariables_found parameters rest
            (AList.update (vd_symbol descriptor)
               \<lparr>mv_symbol = vd_symbol descriptor, mv_label = vd_label descriptor,
                mv_units = vd_units descriptor, mv_data = arr,
                mv_isDependent = vd_isDependent descriptor\<rparr> found))"

text \<open>The second loop of \<^verbatim>\<open>buildVariables\<close>, copying the entries other than x and y.\<close>

fun buildVariables_copy ::
  "(string \<times> MeasurementVariable) list \<Rightarrow> (string \<times> MeasurementVariable) list \<Rightarrow>
   (string \<times> MeasurementVariable) list" where
  "buildVariables_copy [] variables = variables"
| "buildVariables_copy ((key, variable) # rest) variables =
     (if key \<noteq> ''x'' \<and> key \<noteq> ''y''
      then buildVariables_copy rest (AList.update key variable variables)
      else buildVariables_copy rest variables)"

definition buildVariables ::
  "ZmesParameter \<Rightarrow> (string \<times> MeasurementVariable) list option" where
  "buildVariables parameters =
     (let found = buildVariables_found parameters VARIABLE_DESCRIPTORS [] in
      case (map_of found ''x'', map_of found ''y'') of
        (Some x, Some y) \<Rightarrow> Some (buildVariables_copy found [(''x'', x), (''y'', y)])
      | _ \<Rightarrow> None)"

definition extractTitle :: "ZmesParameter \<Rightarrow> string" where
  "extractTitle parameters =
     (case findParameter (nullish_default (p_children parameters) []) ''Sample Settings'' of
        None \<Rightarrow> ''''
      | Some sampleSettings \<Rightarrow>
          (case as_string (optional_value (findParameterDeep sampleSettings ''Sample Name'')) of
             Some s \<Rightarrow> s
           | None \<Rightarrow> ''''))"

text \<open>
  The two field loops of \<^verbatim>\<open>extractMeta\<close>: each takes the search to use, the fields as
  (parameter name, key) pairs and the \<^verbatim>\<open>meta\<close> object so far.
\<close>

fun extractMeta_fields ::
  "(string \<Rightarrow> ZmesParameter option) \<Rightarrow> (string \<times> string) list \<Rightarrow> (string \<times> ZmesValue) list \<Rightarrow>
   (string \<times> ZmesValue) list" where
  "extractMeta_fields search [] meta = meta"
| "extractMeta_fields search ((parameterName, metaKey) # rest) meta =
     (case optional_value (search parameterName) of
        Some v \<Rightarrow> extractMeta_fields search rest (AList.update metaKey v meta)
      | None \<Rightarrow> extractMeta_fields search rest meta)"

definition topLevelFields :: "(string \<times> string) list" where
  "topLevelFields =
     [(''Operator Name'', ''operatorName''),
      (''Measurement Start Date And Time'', ''measurementStartDateTime''),
      (''Measurement Completed Date And Time'', ''measurementCompletedDateTime''),
      (''Repeat'', ''repeat''),
      (''Number Of Repeats'', ''numberOfRepeats''),
      (''Pause Between Repeats (s)'', ''pauseBetweenRepeats''),
      (''Quality Indicator'', ''qualityIndicator''),
      (''Result State'', ''resultState''),
      (''Measurement Type'', ''measurementType'')]"

definition deepFields :: "(string \<times> string) list" where
  "deepFields =
     [(''Z-Average (nm)'', ''zAverage''),
      (''Polydispersity Index (PI)'', ''polydispersityIndex''),
      (''Derived Mean Count Rate (kcps)'', ''derivedMeanCountRate'')]"

definition extractMeta :: "ZmesParameter \<Rightarrow> (string \<times> ZmesValue) list" where
  "extractMeta parameters =
     (let children = nullish_default (p_children parameters) [];
          meta = extractMeta_fields (findParameter children) topLevelFields [];
          meta = extractMeta_fields (findParameterDeep parameters) deepFields meta;
          meta =
            (case findParameterDeep parameters ''Material Settings'' of
               None \<Rightarrow> meta
             | Some materialSettings \<Rightarrow>
                 extractMeta_fields (findParameterDeep materialSettings)
                   [(''Material RI'', ''materialRI''),
                    (''Material Absorption'', ''materialAbsorption'')] meta)
      in extractMeta_fields (findParameterDeep parameters)
           [(''Dispersant Viscosity (cP)'', ''dispersantViscosity''),
            (''Dispersant RI'', ''dispersantRI'')] meta)"

definition instrumentSettingsFields :: "(string \<times> string) list" where
  "instrumentSettingsFields =
     [(''Detector Angle ('' @ [CHR 0xB0] @ '')'', ''detectorAngle''),
      (''Run Duration (s)'', ''runDuration''),
      (''Number Of Runs'', ''numberOfRuns''),
      (''Temperature ('' @ [CHR 0xB0] @ ''C)'', ''temperature''),
      (''Attenuator'', ''attenuator''),
      (''Attenuation Factor'', ''attenuationFactor''),
      (''Cuvette Position (mm)'', ''cuvettePosition''),
      (''Laser Wavelength (nm)'', ''laserWavelength'')]"

fun extractSettings_fields ::
  "ZmesParameter \<Rightarrow> (string \<times> string) list \<Rightarrow> (string \<times> js_number) list \<Rightarrow>
   (string \<times> js_number) list" where
  "extractSettings_fields parameters [] settings = settings"
| "extractSettings_fields parameters ((parameterName, settingsKey) # rest) settings =
     (case as_number (optional_value (findParameterDeep parameters parameterName)) of
        Some x \<Rightarrow> extractSettings_fields parameters rest (AList.update settingsKey x settings)
      | None \<Rightarrow> extractSettings_fields parameters rest settings)"

definition extractSettings :: "ZmesParameter \<Rightarrow> Settings" where
  "extractSettings parameters =
     (let children = nullish_default (p_children parameters) [];
          softwareVersion = findParameter children ''Software Version'';
          instrumentSerialNumber = findParameterDeep parameters ''Instrument Serial Number''
      in \<lparr>instrument =
            \<lparr>manufacturer = ''Malvern Panalytical'', model = ''Zetasizer'',
             serialNumber = as_string (optional_value instrumentSerialNumber),
             software = \<lparr>sw_name = ''ZS XPLORER'',
                         sw_version = as_string (optional_value softwareVersion)\<rparr>\<rparr>,
          numeric = extractSettings_fields parameters instrumentSettingsFields []\<rparr>)"

text \<open>The loop of \<^verbatim>\<open>toMeasurementXY\<close> over the records, and the function itself.\<close>

fun toMeasurementXY_records :: "ZmesRecord list \<Rightarrow> MeasurementXY list \<Rightarrow> MeasurementXY list" where
  "toMeasurementXY_records [] measurements = measurements"
| "toMeasurementXY_records (zrecord # rest) measurements =
     (let parameters = r_parameters zrecord in
      case buildVariables parameters of
        None \<Rightarrow> toMeasurementXY_records rest measurements
      | Some variables \<Rightarrow>
          toMeasurementXY_records rest
            (measurements @
             [\<lparr>m_id = r_guid zrecord, m_title = extractTitle parameters,
               m_dataType = ''Size measurement'', m_meta = extractMeta parameters,
               m_settings = extractSettings parameters, m_variables = variables\<rparr>]))"

definition toMeasurementXY :: "ZmesFile \<Rightarrow> MeasurementXY list" where
  "toMeasurementXY zmesFile = toMeasurementXY_records (f_records zmesFile) []"

text \<open>
  What the claims call an array-valued result of the deep search for a name.
\<close>

definition array_valued :: "ZmesParameter \<Rightarrow> string \<Rightarrow> bool" where
  "array_valued parameters name \<longleftrightarrow>
     as_Float64Array (optional_value (findParameterDeep parameters name)) \<noteq> None"

text \<open>What one record contributes to the projection.\<close>

definition project_one :: "ZmesRecord \<Rightarrow> MeasurementXY list" where
  "project_one r =
     (case buildVariables (r_parameters r) of
        None \<Rightarrow> []
      | Some variables \<Rightarrow>
          [\<lparr>m_id = r_guid r, m_title = extractTitle (r_parameters r),
            m_dataType = ''Size measurement'', m_meta = extractMeta (r_parameters r),
            m_settings = extractSettings (r_parameters r), m_variables = variables\<rparr>])"

text \<open>
  Example records: one whose tree holds the two mandatory arrays and nothing else, and one
  whose dependent variable is a number instead of an array.
\<close>

definition bare_parameters :: ZmesParameter where
  "bare_parameters =
     ZmesParameter ''Size Measurement Result'' ''urn:root'' None
       (Some [ZmesParameter ''Sizes'' ''urn:sizes'' (Some (VFloat64Array [0x3FD3333333333333])) None,
              ZmesParameter ''Particle Size Intensity Distribution'' ''urn:psid''
                (Some (VFloat64Array [0x4045400000000000])) None])"

definition sizes_only_parameters :: ZmesParameter where
  "sizes_only_parameters =
     ZmesParameter ''Size Measurement Result'' ''urn:root'' None
       (Some [ZmesParameter ''Sizes'' ''urn:sizes'' (Some (VFloat64Array [0x3FD3333333333333])) None,
              ZmesParameter ''Particle Size Intensity Distribution'' ''urn:psid''
                (Some (VNumber 0x4045400000000000)) None])"

definition record_of :: "string \<Rightarrow> ZmesParameter \<Rightarrow> ZmesRecord" where
  "record_of guid parameters =
     \<lparr>r_id = 1, r_guid = guid, r_group = \<lparr>g_id = 1, g_guid = ''g'', g_name = None\<rparr>,
      r_createdDateTime = '''', r_modifiedDateTime = '''', r_parameters = parameters\<rparr>"

definition two_record_file :: ZmesFile where
  "two_record_file =
     \<lparr>f_schemaVersion = 3, f_metadata = [],
      f_records = [record_of ''first'' sizes_only_parameters, record_of ''second'' bare_parameters]\<rparr>"

text \<open>An example tree with the name \<^verbatim>\<open>B\<close> at two depths.\<close>

definition deep_B :: ZmesParameter where
  "deep_B = ZmesParameter ''B'' ''urn:deep'' None None"

definition top_B :: ZmesParameter where
  "top_B = ZmesParameter ''B'' ''urn:top'' None None"

definition node_A :: ZmesParameter where
  "node_A = ZmesParameter ''A'' ''urn:a'' None (Some [deep_B])"

definition root_R :: ZmesParameter where
  "root_R = ZmesParameter ''R'' ''urn:r'' None (Some [node_A, top_B])"

text \<open>Example types, data rows and a node with two children, for a given data-type code.\<close>

definition type_of_code :: "string \<Rightarrow> int \<Rightarrow> ParameterType" where
  "type_of_code nm code =
     \<lparr>pt_id = 1, pt_guid = ''guid'', pt_urn = Some (''urn:'' @ nm), pt_friendlyName = Some nm,
      pt_dataType = code, pt_description = None, pt_dataUnitsUrn = None\<rparr>"

definition text_row :: "int \<Rightarrow> string \<Rightarrow> RawDataRow" where
  "text_row node_id s =
     \<lparr>parameterTreeNodeId = node_id, d_parameterTypeId = 1, dataBlob = None, dataBoolean = None,
      dataDouble = None, dataInt32 = None, dataInt64 = None, dataSingle = None,
      dataText = Some s\<rparr>"

definition single_row :: "int \<Rightarrow> js_number \<Rightarrow> RawDataRow" where
  "single_row node_id x =
     \<lparr>parameterTreeNodeId = node_id, d_parameterTypeId = 1, dataBlob = None, dataBoolean = None,
      dataDouble = None, dataInt32 = None, dataInt64 = None, dataSingle = Some x,
      dataText = None\<rparr>"

definition group_node :: "int \<Rightarrow> TreeNode" where
  "group_node code =
     TreeNode 7 1 None 0 (type_of_code ''Group'' code)
       [TreeNode 8 1 (Some 7) 0 (type_of_code ''Leaf'' DATA_TYPE_TEXT) [],
        TreeNode 9 1 (Some 7) 1 (type_of_code ''Temp'' DATA_TYPE_SINGLE) []]"

definition group_data :: "int \<rightharpoonup> RawDataRow" where
  "group_data = [7 \<mapsto> text_row 7 ''ignored'', 8 \<mapsto> text_row 8 ''kept'',
                 9 \<mapsto> single_row 9 0x4045400000000000]"

section \<open>Parameter tree builder (readParameterTree.ts)\<close>

text \<open>
  A row of \<^verbatim>\<open>RecordParameterTreeNodes\<close> as the query returns it. Ids and sibling indices
  are integers, so that the comparator \<^verbatim>\<open>a.siblingIndex - b.siblingIndex\<close> orders them as
  \<open>\<le>\<close> does.
\<close>

record RawNode =
  rn_id :: int
  rn_parameterTypeId :: int
  rn_parentNodeId :: "int option"
  rn_siblingIndex :: int

text \<open>
  The object that \<^verbatim>\<open>buildParameterTree\<close> allocates for a row,
  \<^verbatim>\<open>{...rawNode, parameterType, children: []}\<close>. The objects are shared and mutated: a
  node is pushed into its parent's \<^verbatim>\<open>children\<close> array while its own array is still being
  filled. So the objects live in a store, and an entry of a \<^verbatim>\<open>children\<close> array is a
  reference into it. Every object is held by \<^verbatim>\<open>nodeMap\<close> under its id and by no other
  key, so the map is the store and the key is the reference.

  A \<^verbatim>\<open>Map\<close> iterates in insertion order and \<^verbatim>\<open>set\<close> on a present key keeps the key's
  position: an association list with \<open>AList.update\<close>.
\<close>

record NodeObject = RawNode +
  o_parameterType :: ParameterType
  o_children :: "int list"











section \<open>Record assembly (parse.ts, readRecords.ts)\<close>













section \<open>Vocabulary of the claims about the tree builder\<close>







section \<open>Invariants of the store\<close>



definition raw_of :: "NodeObject \<Rightarrow> RawNode" where
  "raw_of node = \<lparr>rn_id = rn_id node, rn_parameterTypeId = rn_parameterTypeId node,
      rn_parentNodeId = rn_parentNodeId node, rn_siblingIndex = rn_siblingIndex node\<rparr>"

definition new_node :: "RawNode \<Rightarrow> ParameterType \<Rightarrow> NodeObject" where
  "new_node rawNode parameterType =
     \<lparr>rn_id = rn_id rawNode, rn_parameterTypeId = rn_parameterTypeId rawNode,
      rn_parentNodeId = rn_parentNodeId rawNode, rn_siblingIndex = rn_siblingIndex rawNode,
      o_parameterType = parameterType, o_children = []\<rparr>"







section \<open>Example inputs of the tree builder\<close>













section \<open>Properties of the binary array decoder\<close>

declare marker_match.simps [simp del] findMarker_from.simps [simp del] decodeBlob_from.simps [simp del]
lemma length_ENTRY_MARKER: "length ENTRY_MARKER = 6" by (simp add: ENTRY_MARKER_def)

lemma marker_at_len: "marker_at blob k \<Longrightarrow> k + 6 \<le> length blob"
proof -
  assume "marker_at blob k"
  then have "length (take 6 (drop k blob)) = 6" by (simp add: marker_at_def ENTRY_MARKER_def)
  then show ?thesis by simp
qed

lemma marker_match_unfold:
  "marker_match blob i 0 \<longleftrightarrow>
     u8_at blob i = Some 6 \<and> u8_at blob (i + 1) = Some 1 \<and> u8_at blob (i + 2) = Some 1 \<and>
     u8_at blob (i + 3) = Some 1 \<and> u8_at blob (i + 4) = Some 2 \<and> u8_at blob (i + 5) = Some 1"
proof -
  have m6: "marker_match blob i 6" by (subst marker_match.simps) (simp add: length_ENTRY_MARKER)
  have "marker_match blob i 5 = (u8_at blob (i + 5) = Some 1)"
    by (subst marker_match.simps) (simp add: length_ENTRY_MARKER m6, simp add: ENTRY_MARKER_def u8_at_def)
  moreover have "marker_match blob i 4 = (u8_at blob (i + 4) = Some 2 \<and> marker_match blob i 5)"
    by (subst marker_match.simps) (simp add: length_ENTRY_MARKER, simp add: ENTRY_MARKER_def u8_at_def)
  moreover have "marker_match blob i 3 = (u8_at blob (i + 3) = Some 1 \<and> marker_match blob i 4)"
    by (subst marker_match.simps) (simp add: length_ENTRY_MARKER, simp add: ENTRY_MARKER_def u8_at_def)
  moreover have "marker_match blob i 2 = (u8_at blob (i + 2) = Some 1 \<and> marker_match blob i 3)"
    by (subst marker_match.simps) (simp add: length_ENTRY_MARKER, simp add: ENTRY_MARKER_def u8_at_def)
  moreover have "marker_match blob i 1 = (u8_at blob (i + 1) = Some 1 \<and> marker_match blob i 2)"
    by (subst marker_match.simps) (simp add: length_ENTRY_MARKER, simp add: ENTRY_MARKER_def u8_at_def)
  moreover have "marker_match blob i 0 = (u8_at blob i = Some 6 \<and> marker_match blob i 1)"
    by (subst marker_match.simps) (simp add: length_ENTRY_MARKER, simp add: ENTRY_MARKER_def u8_at_def)
  ultimately show ?thesis by simp
qed

lemma marker_match_iff:
  assumes "0 \<le> i"
  shows "marker_match blob i 0 \<longleftrightarrow> marker_at blob (nat i)"
proof
  assume m: "marker_match blob i 0"
  then have len: "nat i + 6 \<le> length blob"
    using assms by (auto simp: marker_match_unfold u8_at_def split: if_splits)
  have "\<forall>j<6. take 6 (drop (nat i) blob) ! j = ENTRY_MARKER ! j"
  proof (intro allI impI)
    fix j :: nat assume "j < 6"
    then consider "j = 0" | "j = 1" | "j = 2" | "j = 3" | "j = 4" | "j = 5" by linarith
    then show "take 6 (drop (nat i) blob) ! j = ENTRY_MARKER ! j"
      using m len assms
      by cases (auto simp: marker_match_unfold u8_at_def ENTRY_MARKER_def nat_add_distrib split: if_splits)
  qed
  then show "marker_at blob (nat i)"
    using len by (simp add: marker_at_def list_eq_iff_nth_eq ENTRY_MARKER_def)
next
  assume a: "marker_at blob (nat i)"
  then have len: "nat i + 6 \<le> length blob" by (rule marker_at_len)
  have nth: "\<And>j. j < 6 \<Longrightarrow> blob ! (nat i + j) = ENTRY_MARKER ! j"
  proof -
    fix j :: nat assume j: "j < 6"
    have "take 6 (drop (nat i) blob) ! j = blob ! (nat i + j)" using j len by simp
    then show "blob ! (nat i + j) = ENTRY_MARKER ! j" using a by (simp add: marker_at_def)
  qed
  show "marker_match blob i 0"
    using nth[of 0] nth[of 1] nth[of 2] nth[of 3] nth[of 4] nth[of 5] len assms
    by (simp add: marker_match_unfold u8_at_def ENTRY_MARKER_def nat_add_distrib)
qed

lemma findMarker_from_spec:
  "0 \<le> i \<Longrightarrow>
   (findMarker_from blob i = - 1 \<and> (\<forall>k\<ge>nat i. \<not> marker_at blob k)) \<or>
   (\<exists>k\<ge>nat i. findMarker_from blob i = int k \<and> marker_at blob k \<and>
        (\<forall>k'. nat i \<le> k' \<and> k' < k \<longrightarrow> \<not> marker_at blob k'))"
proof (induction blob i rule: findMarker_from.induct)
  case (1 blob i)
  show ?case
  proof (cases "i \<le> int (length blob) - int (length ENTRY_MARKER)")
    case False
    then have "findMarker_from blob i = - 1" by (subst findMarker_from.simps) simp
    moreover have "\<forall>k\<ge>nat i. \<not> marker_at blob k"
    proof (intro allI impI notI)
      fix k assume "nat i \<le> k" "marker_at blob k"
      then have "k + 6 \<le> length blob" by (simp add: marker_at_len)
      with False \<open>nat i \<le> k\<close> show False by (simp add: length_ENTRY_MARKER)
    qed
    ultimately show ?thesis by simp
  next
    case inr: True
    show ?thesis
    proof (cases "marker_match blob i 0")
      case True
      then have "findMarker_from blob i = i" using inr by (subst findMarker_from.simps) simp
      moreover have "marker_at blob (nat i)" using True "1.prems" by (simp add: marker_match_iff)
      ultimately show ?thesis using "1.prems" by (intro disjI2 exI[of _ "nat i"]) auto
    next
      case False
      then have eq: "findMarker_from blob i = findMarker_from blob (i + 1)"
        using inr by (subst findMarker_from.simps) simp
      have no: "\<not> marker_at blob (nat i)" using False "1.prems" by (simp add: marker_match_iff)
      have ih: "(findMarker_from blob (i + 1) = - 1 \<and> (\<forall>k\<ge>nat (i + 1). \<not> marker_at blob k)) \<or>
        (\<exists>k\<ge>nat (i + 1). findMarker_from blob (i + 1) = int k \<and> marker_at blob k \<and>
        (\<forall>k'. nat (i + 1) \<le> k' \<and> k' < k \<longrightarrow> \<not> marker_at blob k'))"
        using "1.IH"[OF inr False] "1.prems" by simp
      have step: "\<And>k. nat i \<le> k \<Longrightarrow> k = nat i \<or> nat (i + 1) \<le> k" using "1.prems" by auto
      from ih show ?thesis
      proof
        assume a: "findMarker_from blob (i + 1) = - 1 \<and> (\<forall>k\<ge>nat (i + 1). \<not> marker_at blob k)"
        then have "\<forall>k\<ge>nat i. \<not> marker_at blob k" using no step by blast
        with a eq show ?thesis by simp
      next
        assume "\<exists>k\<ge>nat (i + 1). findMarker_from blob (i + 1) = int k \<and> marker_at blob k \<and>
          (\<forall>k'. nat (i + 1) \<le> k' \<and> k' < k \<longrightarrow> \<not> marker_at blob k')"
        then obtain k where k: "nat (i + 1) \<le> k" "findMarker_from blob (i + 1) = int k"
          "marker_at blob k" "\<forall>k'. nat (i + 1) \<le> k' \<and> k' < k \<longrightarrow> \<not> marker_at blob k'" by blast
        have "\<forall>k'. nat i \<le> k' \<and> k' < k \<longrightarrow> \<not> marker_at blob k'" using k(4) no step by blast
        moreover have "nat i \<le> k" using k(1) by simp
        ultimately show ?thesis using k eq by auto
      qed
    qed
  qed
qed

lemma findMarker_none: "(\<forall>k. \<not> marker_at blob k) \<Longrightarrow> findMarker blob = - 1"
  using findMarker_from_spec[of 0 blob] by (auto simp: findMarker_def)

lemma findMarker_first:
  assumes "marker_at blob k"
  shows "\<exists>m\<le>k. findMarker blob = int m \<and> marker_at blob m \<and> (\<forall>k'<m. \<not> marker_at blob k')"
proof -
  from findMarker_from_spec[of 0 blob] assms
  obtain m where m: "findMarker blob = int m" "marker_at blob m" "\<forall>k'<m. \<not> marker_at blob k'"
    by (auto simp: findMarker_def)
  then have "m \<le> k" using assms by (meson not_le)
  with m show ?thesis by blast
qed

lemma getFloat64_ok:
  "0 \<le> off \<Longrightarrow> off + 8 \<le> int (length view) \<Longrightarrow>
   getFloat64 view off = Inr (le_word (take 8 (drop (nat off) view)))"
  by (simp add: getFloat64_def)

lemma decodeBlob_from_spec:
  "0 \<le> i \<Longrightarrow> i \<le> count \<Longrightarrow> 0 \<le> off \<Longrightarrow> off + count * 14 \<le> int (length view) \<Longrightarrow>
   length result = nat count \<Longrightarrow>
   decodeBlob_from view off count i result =
     Inr (take (nat i) result @
          map (\<lambda>n. le_word (take 8 (drop (nat off + n * 14 + 6) view))) [nat i..<nat count])"
proof (induction view off count i result rule: decodeBlob_from.induct)
  case (1 view off count i result)
  show ?case
  proof (cases "i < count")
    case False
    with "1.prems" have "i = count" by simp
    then show ?thesis using "1.prems" by (subst decodeBlob_from.simps) simp
  next
    case True
    let ?o = "off + i * ENTRY_SIZE + 6"
    have "(i + 1) * 14 \<le> count * 14" using True by simp
    then have rng: "0 \<le> ?o" "?o + 8 \<le> int (length view)"
      using "1.prems" by (simp_all add: ENTRY_SIZE_def algebra_simps)
    let ?v = "le_word (take 8 (drop (nat ?o) view))"
    have g: "getFloat64 view ?o = Inr ?v" using rng by (rule getFloat64_ok)
    have nato: "nat ?o = nat off + nat i * 14 + 6"
      using "1.prems" by (simp add: ENTRY_SIZE_def nat_add_distrib nat_mult_distrib)
    have ih: "decodeBlob_from view off count (i + 1) (result[nat i := ?v]) =
       Inr (take (nat (i + 1)) (result[nat i := ?v]) @
          map (\<lambda>n. le_word (take 8 (drop (nat off + n * 14 + 6) view))) [nat (i + 1)..<nat count])"
      using "1.IH"[OF True g] "1.prems" True by simp
    have ni: "nat (i + 1) = Suc (nat i)" using "1.prems" by simp
    have lt: "nat i < nat count" using True "1.prems" by simp
    have tk: "take (Suc (nat i)) (result[nat i := ?v]) = take (nat i) result @ [?v]"
      using lt "1.prems" by (simp add: take_Suc_conv_app_nth)
    have up: "[nat i..<nat count] = nat i # [Suc (nat i)..<nat count]"
      using lt by (simp add: upt_conv_Cons)
    have step: "decodeBlob_from view off count i result =
          decodeBlob_from view off count (i + 1) (result[nat i := ?v])"
      using True g by (subst decodeBlob_from.simps) simp
    show ?thesis
      unfolding step ih ni tk up by (simp add: nato)
  qed
qed

lemma decodeBlob_at_offset:
  assumes "findMarker blob = int m" "m \<le> length blob"
  shows "decodeBlob blob = Inr (stride_reads blob m)"
proof -
  let ?count = "(int (length blob) - int m) div 14"
  have c: "nat ?count = (length blob - m) div 14"
    using assms(2) by (simp add: nat_div_distrib nat_diff_distrib flip: of_nat_diff)
  have c0: "0 \<le> ?count" using assms(2) by simp
  have "?count * 14 \<le> int (length blob) - int m"
    by (simp add: minus_mod_eq_div_mult[symmetric])
  then have bound: "int m + ?count * 14 \<le> int (length blob)" by simp
  have "decodeBlob blob = decodeBlob_from blob (int m) ?count 0 (replicate (nat ?count) 0)"
    using assms(1) by (simp add: decodeBlob_def Let_def ENTRY_SIZE_def)
  also have "\<dots> = Inr (take (nat 0) (replicate (nat ?count) 0) @
          map (\<lambda>n. le_word (take 8 (drop (nat (int m) + n * 14 + 6) blob))) [nat 0..<nat ?count])"
    using c0 bound by (intro decodeBlob_from_spec) simp_all
  finally show ?thesis by (simp add: c stride_reads_def)
qed

lemma decodeBlob_found:
  assumes "marker_at blob k"
  shows "\<exists>m\<le>k. findMarker blob = int m \<and> marker_at blob m \<and> (\<forall>k'<m. \<not> marker_at blob k') \<and>
           decodeBlob blob = Inr (stride_reads blob m)"
proof -
  from findMarker_first[OF assms] obtain m where m: "m \<le> k" "findMarker blob = int m"
    "marker_at blob m" "\<forall>k'<m. \<not> marker_at blob k'" by blast
  have "m \<le> length blob" using marker_at_len[OF m(3)] by simp
  with m show ?thesis using decodeBlob_at_offset by blast
qed

lemma decodeBlob_no_marker: "\<forall>k. \<not> marker_at blob k \<Longrightarrow> decodeBlob blob = Inr []"
  by (simp add: decodeBlob_def findMarker_none)

lemma marker_at_Nil: "\<not> marker_at [] k"
  using marker_at_len[of "[]" k] by auto


lemma take_drop_take:
  "k + n \<le> L \<Longrightarrow> take n (drop k (take L xs)) = take n (drop k xs)"
  by (simp add: drop_take min_def)

lemma marker_at_take:
  "marker_at (take L blob) k \<longleftrightarrow> marker_at blob k \<and> k + 6 \<le> L"
proof
  assume a: "marker_at (take L blob) k"
  from marker_at_len[OF a] have "k + 6 \<le> L" by simp
  with a show "marker_at blob k \<and> k + 6 \<le> L" by (simp add: marker_at_def take_drop_take)
next
  assume "marker_at blob k \<and> k + 6 \<le> L"
  then show "marker_at (take L blob) k" by (simp add: marker_at_def take_drop_take)
qed

lemma stride_reads_take:
  assumes "m \<le> length blob"
  shows "stride_reads (take (m + (length blob - m) div 14 * 14) blob) m = stride_reads blob m"
proof -
  let ?n = "(length blob - m) div 14"
  let ?L = "m + ?n * 14"
  have L: "?L \<le> length blob"
    using assms div_times_less_eq_dividend[of "length blob - m" 14] by linarith
  then have len: "length (take ?L blob) = ?L" by simp
  have n: "(length (take ?L blob) - m) div 14 = ?n" unfolding len by simp
  have "\<And>i. i < ?n \<Longrightarrow> take 8 (drop (m + i * 14 + 6) (take ?L blob)) =
                         take 8 (drop (m + i * 14 + 6) blob)"
  proof -
    fix i assume "i < ?n"
    then have "Suc i * 14 \<le> ?n * 14" by simp
    then have "m + i * 14 + 6 + 8 \<le> ?L" by simp
    then show "take 8 (drop (m + i * 14 + 6) (take ?L blob)) = take 8 (drop (m + i * 14 + 6) blob)"
      by (rule take_drop_take)
  qed
  then show ?thesis unfolding stride_reads_def n by simp
qed

lemma decodeBlob_drop_trailing:
  assumes m: "marker_at blob m" "\<forall>k'<m. \<not> marker_at blob k'"
  shows "decodeBlob (take (m + (length blob - m) div 14 * 14) blob) = Inr (stride_reads blob m)"
proof -
  let ?n = "(length blob - m) div 14"
  let ?L = "m + ?n * 14"
  have mlen: "m \<le> length blob" using marker_at_len[OF m(1)] by simp
  show ?thesis
  proof (cases "?n = 0")
    case True
    have "\<forall>k. \<not> marker_at (take ?L blob) k"
      using m(2) True by (auto simp: marker_at_take)
    then have "decodeBlob (take ?L blob) = Inr []" by (rule decodeBlob_no_marker)
    moreover have "stride_reads blob m = []" using True by (simp add: stride_reads_def)
    ultimately show ?thesis by simp
  next
    case False
    then have "m + 6 \<le> ?L" by simp
    with m(1) have "marker_at (take ?L blob) m" by (simp add: marker_at_take)
    from decodeBlob_found[OF this] obtain m' where m': "m' \<le> m" "marker_at (take ?L blob) m'"
      "decodeBlob (take ?L blob) = Inr (stride_reads (take ?L blob) m')" by blast
    from m'(2) have "marker_at blob m'" by (simp add: marker_at_take)
    with m(2) m'(1) have "m' = m" by (meson le_neq_implies_less)
    with m'(3) show ?thesis by (simp add: stride_reads_take[OF mlen])
  qed
qed

text \<open>
  Claim C1. Whenever the six-byte marker occurs in the blob at some offset \<open>k\<close>,
  \<^verbatim>\<open>findMarker\<close> returns the first offset \<open>m\<close> at which it occurs, and \<^verbatim>\<open>decodeBlob\<close>
  returns, without error, exactly \<open>floor ((length blob - m) / 14)\<close> doubles, the \<open>i\<close>-th being
  the eight bytes at \<open>m + i * 14 + 6\<close> read little-endian (every such read lies inside the
  blob). The bytes after the last complete stride contribute nothing: cutting them off
  leaves the result unchanged.
\<close>

theorem decodeBlob_stride:
  assumes "marker_at blob k"
  shows "\<exists>m\<le>k. findMarker blob = int m \<and> marker_at blob m \<and> (\<forall>k'<m. \<not> marker_at blob k') \<and>
           decodeBlob blob = Inr (stride_reads blob m) \<and>
           length (stride_reads blob m) = (length blob - m) div 14 \<and>
           (\<forall>i<(length blob - m) div 14.
               stride_reads blob m ! i = le_word (take 8 (drop (m + i * 14 + 6) blob)) \<and>
               m + i * 14 + 6 + 8 \<le> length blob) \<and>
           decodeBlob (take (m + (length blob - m) div 14 * 14) blob) = decodeBlob blob"
proof -
  from decodeBlob_found[OF assms] obtain m where m: "m \<le> k" "findMarker blob = int m"
    "marker_at blob m" "\<forall>k'<m. \<not> marker_at blob k'" "decodeBlob blob = Inr (stride_reads blob m)"
    by blast
  have len: "length (stride_reads blob m) = (length blob - m) div 14"
    by (simp add: stride_reads_def)
  have reads: "\<forall>i<(length blob - m) div 14.
               stride_reads blob m ! i = le_word (take 8 (drop (m + i * 14 + 6) blob)) \<and>
               m + i * 14 + 6 + 8 \<le> length blob"
  proof (intro allI impI conjI)
    fix i assume i: "i < (length blob - m) div 14"
    show "stride_reads blob m ! i = le_word (take 8 (drop (m + i * 14 + 6) blob))"
      using i by (simp add: stride_reads_def)
    have "Suc i * 14 \<le> length blob - m" using i
      by (metis Suc_leI less_eq_div_iff_mult_less_eq zero_less_numeral)
    then show "m + i * 14 + 6 + 8 \<le> length blob" by simp
  qed
  have "decodeBlob (take (m + (length blob - m) div 14 * 14) blob) = decodeBlob blob"
    using decodeBlob_drop_trailing[OF m(3,4)] m(5) by simp
  with m len reads show ?thesis by blast
qed

theorem decodeBlob_stride_witness:
  "marker_at blob1 2 \<and> decodeBlob blob1 = Inr [0x4045400000000000] \<and>
   decodeBlob (take 16 blob1) = decodeBlob blob1"
proof -
  have h: "marker_at blob1 2" by code_simp
  from decodeBlob_stride[OF h] obtain m where m: "findMarker blob1 = int m"
     "decodeBlob blob1 = Inr (stride_reads blob1 m)"
     "decodeBlob (take (m + (length blob1 - m) div 14 * 14) blob1) = decodeBlob blob1" by blast
  have "findMarker blob1 = 2" by code_simp
  with m(1) have m2: "m = 2" by simp
  have "stride_reads blob1 2 = [0x4045400000000000]" by code_simp
  moreover have "2 + (length blob1 - 2) div 14 * 14 = 16" by (simp add: blob1_def)
  ultimately show ?thesis using h m(2,3) m2 by simp
qed

text \<open>
  Claim C7. \<^verbatim>\<open>decodeBlob\<close> never throws: on every blob it returns a sequence, and on the
  empty blob and on a blob in which the marker occurs nowhere that sequence is empty.
\<close>

theorem decodeBlob_total:
  "(\<exists>ds. decodeBlob blob = Inr ds) \<and>
   (blob = [] \<or> (\<forall>k. \<not> marker_at blob k) \<longrightarrow> decodeBlob blob = Inr [])"
proof (cases "\<exists>k. marker_at blob k")
  case True
  then obtain k where "marker_at blob k" ..
  from decodeBlob_found[OF this] have "\<exists>ds. decodeBlob blob = Inr ds" by blast
  moreover have "blob \<noteq> []" using True marker_at_Nil by auto
  ultimately show ?thesis using True by blast
next
  case False
  then show ?thesis by (simp add: decodeBlob_no_marker)
qed

theorem decodeBlob_total_witness:
  "decodeBlob [] = Inr [] \<and> decodeBlob [0, 1, 2, 3] = Inr []"
proof -
  have "\<forall>k. \<not> marker_at [0, 1, 2, 3] k" using marker_at_len[of "[0, 1, 2, 3]"] by auto
  then show ?thesis using decodeBlob_total[of "[]"] decodeBlob_total[of "[0, 1, 2, 3]"] by simp
qed

section \<open>Properties of the tree search\<close>

lemma find_findParameter: "findParameter children name = List.find (\<lambda>c. p_name c = name) children"
  by (induction children) auto

lemma find_append_first:
  "List.find P (xs @ ys) = (case List.find P xs of Some x \<Rightarrow> Some x | None \<Rightarrow> List.find P ys)"
  by (induction xs) auto

lemma find_findParameterDeep:
  "findParameterDeep parameter name = List.find (\<lambda>q. p_name q = name) (preorder parameter)"
  "findParameterDeep_children children name =
     List.find (\<lambda>q. p_name q = name) (preorder_children children)"
proof (induction parameter name and children name rule: findParameterDeep_findParameterDeep_children.induct)
  case (1 n u v cs name)
  then show ?case by (auto split: option.splits)
next
  case (2 name)
  then show ?case by simp
next
  case (3 child rest name)
  then show ?case by (simp add: find_append_first split: option.splits)
qed

lemma preorder_head:
  "preorder parameter =
     parameter # preorder_children (case p_children parameter of Some cs \<Rightarrow> cs | None \<Rightarrow> [])"
  by (cases parameter) (auto split: option.splits)

text \<open>
  Claim C9. The shallow search \<^verbatim>\<open>findParameter\<close> returns the first of the supplied children
  whose name equals the query, so its result is one of those children and never a deeper
  node. The deep search \<^verbatim>\<open>findParameterDeep\<close> returns the first node with that name in the
  pre-order traversal of the tree, which starts with the node itself and continues with each
  child subtree in order. Both return nothing exactly when no node they look at has the
  name.
\<close>

theorem tree_search:
  "findParameter children name = List.find (\<lambda>c. p_name c = name) children \<and>
   (\<forall>r. findParameter children name = Some r \<longrightarrow> r \<in> set children \<and> p_name r = name) \<and>
   (findParameter children name = None \<longleftrightarrow> (\<forall>c\<in>set children. p_name c \<noteq> name)) \<and>
   preorder parameter =
     parameter # preorder_children (case p_children parameter of Some cs \<Rightarrow> cs | None \<Rightarrow> []) \<and>
   findParameterDeep parameter name = List.find (\<lambda>q. p_name q = name) (preorder parameter) \<and>
   (findParameterDeep parameter name = None \<longleftrightarrow>
      (\<forall>q\<in>set (preorder parameter). p_name q \<noteq> name))"
proof -
  have a: "\<forall>r. findParameter children name = Some r \<longrightarrow> r \<in> set children \<and> p_name r = name"
    unfolding find_findParameter by (auto simp: find_Some_iff)
  have b: "findParameter children name = None \<longleftrightarrow> (\<forall>c\<in>set children. p_name c \<noteq> name)"
    unfolding find_findParameter by (auto simp: find_None_iff)
  have c: "findParameterDeep parameter name = None \<longleftrightarrow>
      (\<forall>q\<in>set (preorder parameter). p_name q \<noteq> name)"
    unfolding find_findParameterDeep by (auto simp: find_None_iff)
  show ?thesis using a b c find_findParameter find_findParameterDeep(1) preorder_head by blast
qed

theorem tree_search_witness:
  "findParameter [node_A, top_B] ''B'' = Some top_B \<and>
   findParameterDeep root_R ''B'' = Some deep_B \<and>
   preorder root_R = [root_R, node_A, deep_B, top_B] \<and>
   findParameter [node_A, top_B] ''R'' = None \<and>
   findParameterDeep root_R ''Z'' = None"
proof -
  have p: "preorder root_R = [root_R, node_A, deep_B, top_B]"
    by (simp add: root_R_def node_A_def deep_B_def top_B_def)
  have n: "p_name root_R = ''R''" "p_name node_A = ''A''" "p_name deep_B = ''B''" "p_name top_B = ''B''"
    by (simp_all add: root_R_def node_A_def deep_B_def top_B_def)
  note t = tree_search[of "[node_A, top_B]" "''B''" root_R]
  from t have "findParameter [node_A, top_B] ''B'' =
      List.find (\<lambda>c. p_name c = ''B'') [node_A, top_B]" by blast
  then have a: "findParameter [node_A, top_B] ''B'' = Some top_B" by (simp add: n)
  from t have "findParameterDeep root_R ''B'' = List.find (\<lambda>q. p_name q = ''B'') (preorder root_R)"
    by blast
  then have b: "findParameterDeep root_R ''B'' = Some deep_B" by (simp add: p n)
  have c: "findParameter [node_A, top_B] ''R'' = None"
    using tree_search[of "[node_A, top_B]" "''R''" root_R] by (simp add: n)
  have "\<forall>q\<in>set (preorder root_R). p_name q \<noteq> ''Z''" by (simp add: p n)
  then have d: "findParameterDeep root_R ''Z'' = None"
    using tree_search[of "[node_A, top_B]" "''Z''" root_R] by blast
  show ?thesis using a b c d p by simp
qed

section \<open>Properties of the value extraction\<close>

lemma decodeBlob_returns: "\<exists>ds. decodeBlob blob = Inr ds"
proof (cases "\<exists>k. marker_at blob k")
  case True
  then obtain k where "marker_at blob k" ..
  from decodeBlob_found[OF this] show ?thesis by blast
next
  case False
  then show ?thesis by (simp add: decodeBlob_no_marker)
qed

lemma extractValue_returns: "\<exists>v. extractValue dataType row = Inr v"
proof -
  obtain ds where "\<forall>blob. dataBlob row = Some blob \<longrightarrow> decodeBlob blob = Inr (ds blob)"
    using decodeBlob_returns by metis
  then show ?thesis by (auto simp: extractValue_def split: option.splits)
qed

lemma convertNode_returns:
  "\<exists>p. convertNode node dataMap = Inr p"
  "\<exists>r. convertNode_children children dataMap acc = Inr r \<and>
       map Inr r = map Inr acc @ map (\<lambda>c. convertNode c dataMap) children"
proof (induction node dataMap and children dataMap acc rule: convertNode_convertNode_children.induct)
  case (1 i tid par sib ptype children dataMap)
  obtain v where v: "(case dataMap i of
              Some dataRow \<Rightarrow> extractValue (pt_dataType ptype) dataRow
            | None \<Rightarrow> Inr None) = Inr v"
    using extractValue_returns by (cases "dataMap i") auto
  show ?case
  proof (cases "children = []")
    case True
    then show ?thesis using v by (simp add: Let_def)
  next
    case False
    then have "0 < length children" by simp
    from "1.IH"[OF refl refl v this] obtain r where "convertNode_children children dataMap [] = Inr r"
      by blast
    then show ?thesis using v False by (simp add: Let_def)
  qed
next
  case (2 dataMap acc)
  then show ?case by simp
next
  case (3 child rest dataMap acc)
  from "3.IH"(1) obtain p where p: "convertNode child dataMap = Inr p" by blast
  from "3.IH"(2)[OF p] obtain r where "convertNode_children rest dataMap (acc @ [p]) = Inr r"
    "map Inr r = map Inr (acc @ [p]) @ map (\<lambda>c. convertNode c dataMap) rest" by blast
  then show ?case using p by simp
qed

lemma convertNode_result:
  assumes "node_value node dataMap = Inr v"
  shows "\<exists>p. convertNode node dataMap = Inr p \<and>
           p_name p = nullish_default (pt_friendlyName (n_parameterType node)) '''' \<and>
           p_urn p = nullish_default (pt_urn (n_parameterType node)) '''' \<and>
           p_value p = v \<and>
           (n_children node = [] \<longrightarrow> p_children p = None) \<and>
           (n_children node \<noteq> [] \<longrightarrow>
              (\<exists>cs. p_children p = Some cs \<and>
                    map Inr cs = map (\<lambda>c. convertNode c dataMap) (n_children node)))"
proof (cases node)
  case (TreeNode i tid par sib ptype children)
  have v: "(case dataMap i of
              Some dataRow \<Rightarrow> extractValue (pt_dataType ptype) dataRow
            | None \<Rightarrow> Inr None) = Inr v"
    using assms TreeNode by (simp add: node_value_def split: option.splits)
  show ?thesis
  proof (cases "children = []")
    case True
    then show ?thesis using v TreeNode by (simp add: Let_def)
  next
    case False
    from convertNode_returns(2)[of children dataMap "[]"] obtain cs where
      "convertNode_children children dataMap [] = Inr cs"
      "map Inr cs = map (\<lambda>c. convertNode c dataMap) children" by auto
    then show ?thesis using v TreeNode False by (simp add: Let_def)
  qed
qed

lemma extractValue_no_value:
  assumes "dataType = DATA_TYPE_NONE \<or> dataType = DATA_TYPE_DICTIONARY \<or> dataType \<notin> known_data_types"
  shows "extractValue dataType row = Inr None"
proof -
  consider "dataType = DATA_TYPE_NONE" | "dataType = DATA_TYPE_DICTIONARY"
    | "dataType \<notin> known_data_types" using assms by blast
  then show ?thesis
  proof cases
    case 1
    then show ?thesis by (simp add: extractValue_def)
  next
    case 2
    then show ?thesis by (simp add: extractValue_def)
  next
    case 3
    then show ?thesis by (simp add: extractValue_def known_data_types_def)
  qed
qed

lemma group_node_sel:
  "n_id (group_node code) = 7" "pt_dataType (n_parameterType (group_node code)) = code"
  "n_children (group_node code) \<noteq> []"
  by (simp_all add: group_node_def type_of_code_def)

lemma group_result:
  "convertNode (group_node code) group_data = Inr p \<Longrightarrow> p_value p = None \<Longrightarrow>
   p = ZmesParameter ''Group'' ''urn:Group'' None
           (Some [ZmesParameter ''Leaf'' ''urn:Leaf'' (Some (VString ''kept'')) None,
                  ZmesParameter ''Temp'' ''urn:Temp'' (Some (VNumber 0x4045400000000000)) None])"
  by (cases "extractValue code (text_row 7 ''ignored'')")
     (auto simp: group_node_def group_data_def type_of_code_def Let_def nullish_default_def
       extractValue_def DATA_TYPE_defs text_row_def single_row_def nullish_def split: if_splits)

text \<open>
  Claim C8. For a tree node that has a data row and whose data-type code is the "no value"
  code, the "dictionary" code or a code that \<^verbatim>\<open>extractValue\<close> does not know, the extraction
  yields no value and no error, and \<^verbatim>\<open>convertNode\<close> returns a parameter without a value that
  carries the node's name and urn and, when the node has children, the conversions of its
  children in order (and no \<^verbatim>\<open>children\<close> entry otherwise).
\<close>

theorem convertNode_no_value:
  assumes "dataMap (n_id node) = Some row"
    and "pt_dataType (n_parameterType node) = DATA_TYPE_NONE \<or>
         pt_dataType (n_parameterType node) = DATA_TYPE_DICTIONARY \<or>
         pt_dataType (n_parameterType node) \<notin> known_data_types"
  shows "extractValue (pt_dataType (n_parameterType node)) row = Inr None \<and>
         (\<exists>p. convertNode node dataMap = Inr p \<and>
           p_name p = nullish_default (pt_friendlyName (n_parameterType node)) '''' \<and>
           p_urn p = nullish_default (pt_urn (n_parameterType node)) '''' \<and>
           p_value p = None \<and>
           (n_children node = [] \<longrightarrow> p_children p = None) \<and>
           (n_children node \<noteq> [] \<longrightarrow>
              (\<exists>cs. p_children p = Some cs \<and>
                    map Inr cs = map (\<lambda>c. convertNode c dataMap) (n_children node))))"
proof -
  have e: "extractValue (pt_dataType (n_parameterType node)) row = Inr None"
    using assms(2) by (rule extractValue_no_value)
  then have "node_value node dataMap = Inr None" using assms(1) by (simp add: node_value_def)
  from convertNode_result[OF this] e show ?thesis by simp
qed

theorem convertNode_no_value_witness:
  "group_data (n_id (group_node DATA_TYPE_DICTIONARY)) = Some (text_row 7 ''ignored'') \<and>
   99 \<notin> known_data_types \<and>
   convertNode (group_node DATA_TYPE_DICTIONARY) group_data =
     Inr (ZmesParameter ''Group'' ''urn:Group'' None
           (Some [ZmesParameter ''Leaf'' ''urn:Leaf'' (Some (VString ''kept'')) None,
                  ZmesParameter ''Temp'' ''urn:Temp'' (Some (VNumber 0x4045400000000000)) None])) \<and>
   convertNode (group_node 99) group_data = convertNode (group_node DATA_TYPE_DICTIONARY) group_data"
proof -
  have r: "group_data (n_id (group_node code)) = Some (text_row 7 ''ignored'')" for code
    by (simp add: group_node_sel group_data_def)
  have u: "99 \<notin> known_data_types" by (simp add: known_data_types_def DATA_TYPE_defs)
  from convertNode_no_value[of group_data "group_node DATA_TYPE_DICTIONARY" "text_row 7 ''ignored''"] r
  obtain p where
    p: "convertNode (group_node DATA_TYPE_DICTIONARY) group_data = Inr p" "p_value p = None"
    by (auto simp: group_node_sel)
  from convertNode_no_value[of group_data "group_node 99" "text_row 7 ''ignored''"] r u
  obtain q where
    q: "convertNode (group_node 99) group_data = Inr q" "p_value q = None"
    by (auto simp: group_node_sel)
  show ?thesis using r u p q group_result[OF p] group_result[OF q] by simp
qed

text \<open>
  Claim C6. For the floating codes (double, single, duration) \<^verbatim>\<open>extractValue\<close> returns the
  value of the double column when it is not null, otherwise that of the single column when
  it is not null; so a row with only the single column filled yields that number, never
  "no value".
\<close>

theorem extractValue_floating:
  assumes "dataType = DATA_TYPE_DOUBLE \<or> dataType = DATA_TYPE_SINGLE \<or> dataType = DATA_TYPE_DURATION"
  shows "extractValue dataType row =
           Inr (case dataDouble row of
                  Some d \<Rightarrow> Some (VNumber d)
                | None \<Rightarrow> (case dataSingle row of Some s \<Rightarrow> Some (VNumber s) | None \<Rightarrow> None)) \<and>
         (\<forall>s. dataDouble row = None \<and> dataSingle row = Some s \<longrightarrow>
              extractValue dataType row = Inr (Some (VNumber s)))"
proof -
  have "extractValue dataType row = Inr (map_option VNumber (nullish (dataDouble row) (dataSingle row)))"
    using assms by (auto simp: extractValue_def DATA_TYPE_defs)
  then show ?thesis by (simp add: nullish_def split: option.splits)
qed

theorem extractValue_floating_witness:
  "extractValue DATA_TYPE_SINGLE (single_row 9 0x4045400000000000) =
     Inr (Some (VNumber 0x4045400000000000)) \<and>
   extractValue DATA_TYPE_DURATION (single_row 9 0x4045400000000000) =
     Inr (Some (VNumber 0x4045400000000000))"
  using extractValue_floating[of DATA_TYPE_SINGLE "single_row 9 0x4045400000000000"]
        extractValue_floating[of DATA_TYPE_DURATION "single_row 9 0x4045400000000000"]
  by (simp add: single_row_def)

section \<open>Properties of the domain projection\<close>

lemma buildVariables_found_lookup:
  "map_of (buildVariables_found p ds found) s \<noteq> None \<longleftrightarrow>
     map_of found s \<noteq> None \<or> (\<exists>d\<in>set ds. vd_symbol d = s \<and> array_valued p (vd_parameterName d))"
proof (induction ds arbitrary: found)
  case Nil
  then show ?case by simp
next
  case (Cons d ds)
  show ?case
  proof (cases "as_Float64Array (optional_value (findParameterDeep p (vd_parameterName d)))")
    case None
    then have "\<not> array_valued p (vd_parameterName d)" by (simp add: array_valued_def)
    then show ?thesis using None Cons.IH[of found] by auto
  next
    case (Some arr)
    then have "array_valued p (vd_parameterName d)" by (simp add: array_valued_def)
    then show ?thesis using Some Cons.IH by (auto simp: update_conv')
  qed
qed

lemma found_x:
  "map_of (buildVariables_found p VARIABLE_DESCRIPTORS []) ''x'' \<noteq> None \<longleftrightarrow> array_valued p ''Sizes''"
  unfolding buildVariables_found_lookup by (simp add: VARIABLE_DESCRIPTORS_def)

lemma found_y:
  "map_of (buildVariables_found p VARIABLE_DESCRIPTORS []) ''y'' \<noteq> None \<longleftrightarrow>
     array_valued p ''Particle Size Intensity Distribution''"
  unfolding buildVariables_found_lookup by (simp add: VARIABLE_DESCRIPTORS_def)

lemma buildVariables_None_iff:
  "buildVariables p = None \<longleftrightarrow>
     \<not> (array_valued p ''Sizes'' \<and> array_valued p ''Particle Size Intensity Distribution'')"
  using found_x[of p] found_y[of p]
  by (auto simp: buildVariables_def Let_def split: option.splits)

lemma toMeasurementXY_records_concat:
  "toMeasurementXY_records rs acc = acc @ concat (map project_one rs)"
  by (induction rs arbitrary: acc) (auto simp: project_one_def Let_def split: option.splits)

lemma toMeasurementXY_single:
  "toMeasurementXY ((zf::ZmesFile)\<lparr>f_records := [r]\<rparr>) = project_one r"
  by (simp add: toMeasurementXY_def toMeasurementXY_records_concat)

lemma record_of_sel [simp]:
  "r_parameters (record_of guid parameters) = parameters" "r_guid (record_of guid parameters) = guid"
  by (simp_all add: record_of_def)

text \<open>
  Claim C3. The output of \<^verbatim>\<open>toMeasurementXY\<close> is the concatenation, in order, of what each
  record of the file yields on its own. A record yields no measurement when the deep search
  for \<^verbatim>\<open>Sizes\<close> or for \<^verbatim>\<open>Particle Size Intensity Distribution\<close> does not return a parameter
  whose value is a \<^verbatim>\<open>Float64Array\<close>, and exactly one measurement (with the record's guid as
  id) when both do, whatever else the record holds.
\<close>

theorem toMeasurementXY_gate:
  fixes zf :: ZmesFile
  shows
  "toMeasurementXY zf = concat (map (\<lambda>r. toMeasurementXY (zf\<lparr>f_records := [r]\<rparr>)) (f_records zf)) \<and>
   (\<forall>r::ZmesRecord. \<not> (array_valued (r_parameters r) ''Sizes'' \<and>
            array_valued (r_parameters r) ''Particle Size Intensity Distribution'') \<longrightarrow>
        toMeasurementXY (zf\<lparr>f_records := [r]\<rparr>) = []) \<and>
   (\<forall>r::ZmesRecord. array_valued (r_parameters r) ''Sizes'' \<and>
        array_valued (r_parameters r) ''Particle Size Intensity Distribution'' \<longrightarrow>
        (\<exists>m. toMeasurementXY (zf\<lparr>f_records := [r]\<rparr>) = [m] \<and> m_id m = r_guid r))"
proof (intro conjI allI impI)
  show "toMeasurementXY zf = concat (map (\<lambda>r. toMeasurementXY (zf\<lparr>f_records := [r]\<rparr>)) (f_records zf))"
    by (simp add: toMeasurementXY_single) (simp add: toMeasurementXY_def toMeasurementXY_records_concat)
next
  fix r :: ZmesRecord
  assume "\<not> (array_valued (r_parameters r) ''Sizes'' \<and>
            array_valued (r_parameters r) ''Particle Size Intensity Distribution'')"
  then have "buildVariables (r_parameters r) = None" by (simp add: buildVariables_None_iff)
  then show "toMeasurementXY (zf\<lparr>f_records := [r]\<rparr>) = []"
    by (simp add: toMeasurementXY_single project_one_def)
next
  fix r :: ZmesRecord
  assume "array_valued (r_parameters r) ''Sizes'' \<and>
        array_valued (r_parameters r) ''Particle Size Intensity Distribution''"
  then have "buildVariables (r_parameters r) \<noteq> None" by (simp add: buildVariables_None_iff)
  then obtain vs where "buildVariables (r_parameters r) = Some vs" by blast
  then show "\<exists>m. toMeasurementXY (zf\<lparr>f_records := [r]\<rparr>) = [m] \<and> m_id m = r_guid r"
    by (simp add: toMeasurementXY_single project_one_def)
qed

theorem toMeasurementXY_gate_witness:
  "array_valued bare_parameters ''Sizes'' \<and>
   array_valued bare_parameters ''Particle Size Intensity Distribution'' \<and>
   \<not> array_valued sizes_only_parameters ''Particle Size Intensity Distribution'' \<and>
   toMeasurementXY (two_record_file\<lparr>f_records := [record_of ''first'' sizes_only_parameters]\<rparr>) = [] \<and>
   map m_id (toMeasurementXY two_record_file) = [''second'']"
proof -
  have x: "array_valued bare_parameters ''Sizes''" by code_simp
  have y: "array_valued bare_parameters ''Particle Size Intensity Distribution''" by code_simp
  have n: "\<not> array_valued sizes_only_parameters ''Particle Size Intensity Distribution''"
    by code_simp
  note g = toMeasurementXY_gate[of two_record_file]
  from g have "\<not> (array_valued (r_parameters (record_of ''first'' sizes_only_parameters)) ''Sizes'' \<and>
            array_valued (r_parameters (record_of ''first'' sizes_only_parameters))
               ''Particle Size Intensity Distribution'') \<longrightarrow>
      toMeasurementXY (two_record_file\<lparr>f_records := [record_of ''first'' sizes_only_parameters]\<rparr>) = []"
    by blast
  with n have a: "toMeasurementXY (two_record_file\<lparr>f_records := [record_of ''first'' sizes_only_parameters]\<rparr>) = []"
    by simp
  from g have "array_valued (r_parameters (record_of ''second'' bare_parameters)) ''Sizes'' \<and>
        array_valued (r_parameters (record_of ''second'' bare_parameters))
           ''Particle Size Intensity Distribution'' \<longrightarrow>
        (\<exists>m. toMeasurementXY (two_record_file\<lparr>f_records := [record_of ''second'' bare_parameters]\<rparr>) = [m] \<and>
             m_id m = r_guid (record_of ''second'' bare_parameters))"
    by blast
  with x y obtain m where
    b: "toMeasurementXY (two_record_file\<lparr>f_records := [record_of ''second'' bare_parameters]\<rparr>) = [m]"
       "m_id m = ''second''"
    by auto
  from g have "toMeasurementXY two_record_file =
      toMeasurementXY (two_record_file\<lparr>f_records := [record_of ''first'' sizes_only_parameters]\<rparr>) @
      toMeasurementXY (two_record_file\<lparr>f_records := [record_of ''second'' bare_parameters]\<rparr>)"
    by (simp add: two_record_file_def)
  with a b x y n show ?thesis by simp
qed

section \<open>Properties of the parameter tree builder\<close>

























































lemma raw_of_new_node [simp]: "raw_of (new_node r pt) = r"
  by (simp add: raw_of_def new_node_def)

lemma new_node_sel [simp]:
  "rn_id (new_node r pt) = rn_id r" "rn_parentNodeId (new_node r pt) = rn_parentNodeId r"
  "rn_parameterTypeId (new_node r pt) = rn_parameterTypeId r"
  "rn_siblingIndex (new_node r pt) = rn_siblingIndex r"
  "o_parameterType (new_node r pt) = pt" "o_children (new_node r pt) = []"
  by (simp_all add: new_node_def)

lemma raw_of_children_update [simp]: "raw_of (n\<lparr>o_children := cs\<rparr>) = raw_of n"
  by (simp add: raw_of_def)














































end
